theory Spec2Isabelle
  imports Complex_Main "HOL-Library.AList"
begin

section \<open>The position ledger of \<^verbatim>\<open>zipline/finance/ledger.py\<close>\<close>

text \<open>
  The development embeds the classes \<^verbatim>\<open>PositionTracker\<close> and \<^verbatim>\<open>Ledger\<close>.
  Conventions of the embedding:
  \<^item> an object is a record, and a method takes the object and returns the updated one;
  \<^item> a Python \<^verbatim>\<open>dict\<close> or \<^verbatim>\<open>OrderedDict\<close> is an association list in insertion order:
    storing under a present key keeps the key's place, storing under a new key appends, as
    \<open>AList.update\<close> does; \<open>AList.delete\<close> is \<^verbatim>\<open>del\<close>;
  \<^item> a raised exception is the left injection of a sum, and it ends the run: the state a
    half-finished method leaves behind is not represented;
  \<^item> share counts are integers; prices and money are Python floats, idealised here as
    exact real numbers, so that every arithmetic statement below is about the arithmetic
    the code writes down, without rounding; \<^verbatim>\<open>NaN\<close> prices of the data portal are \<open>None\<close>,
    and \<^verbatim>\<open>np.inf\<close> is a value of its own (\<open>PInf\<close>);
  \<^item> \<^verbatim>\<open>data_frequency\<close>, which is only handed on to the data portal, and the
    pandas series \<^verbatim>\<open>daily_returns\<close> are left out.
\<close>

subsection \<open>Values\<close>

type_synonym timestamp = nat

text \<open>
  Modelled from the spec: the asset classes (\<^verbatim>\<open>zipline.assets\<close>) are not among the sources.
  By the spec an instrument is either ordinary or of the leverage-bearing kind, and only
  the latter carries a multiplier; the first field is the instrument's identity.
\<close>

datatype asset = Equity nat | Future nat real

datatype error = KeyError | AttributeError | ZeroDivisionError

datatype xreal = Fin real | PInf

fun isinstance_Future :: "asset \<Rightarrow> bool" where
  "isinstance_Future (Future sid m) = True"
| "isinstance_Future (Equity sid) = False"

text \<open>\<^verbatim>\<open>asset.multiplier\<close>: only a \<^verbatim>\<open>Future\<close> carries the attribute.\<close>

fun multiplier :: "asset \<Rightarrow> error + real" where
  "multiplier (Future sid m) = Inr m"
| "multiplier (Equity sid) = Inl AttributeError"

text \<open>\<^verbatim>\<open>d[k]\<close> on a dictionary.\<close>

definition getitem :: "('k \<times> 'v) list \<Rightarrow> 'k \<Rightarrow> error + 'v" where
  "getitem d k = (case map_of d k of None \<Rightarrow> Inl KeyError | Some v \<Rightarrow> Inr v)"

text \<open>
  Modelled from the spec: the event records (\<^verbatim>\<open>Transaction\<close>, \<^verbatim>\<open>zp.Order\<close>) are built
  outside the sources; they carry the fields that the ledger reads (for an order its id
  and modification time, next to a payload), and their dictionary form (\<^verbatim>\<open>to_dict\<close>) is
  the record itself.
\<close>

record transaction =
  txn_asset :: asset
  txn_amount :: int
  txn_dt :: timestamp
  txn_price :: real
  txn_order_id :: "nat option"

record order =
  order_id :: nat
  order_dt :: timestamp
  order_amount :: int
  order_filled :: int

subsection \<open>Position\<close>

text \<open>
  Modelled from the spec: the class \<^verbatim>\<open>Position\<close> is declared in \<^verbatim>\<open>position.py\<close>, which
  is not among the sources. The spec's data model gives a position its instrument, signed
  quantity, cost basis, last sale price and the time of that price.
\<close>

record position =
  asset :: asset
  amount :: int
  cost_basis :: real
  last_sale_price :: real
  last_sale_date :: "timestamp option"

text \<open>
  Modelled from the spec: the constructor \<^verbatim>\<open>Position(asset)\<close>. A new position holds
  nothing: \<^verbatim>\<open>execute_transaction\<close> and \<^verbatim>\<open>pay_dividends\<close> create the position before the
  first quantity is added to it.
\<close>

definition Position :: "asset \<Rightarrow> position" where
  "Position a =
     \<lparr>asset = a, amount = 0, cost_basis = 0, last_sale_price = 0, last_sale_date = None\<rparr>"

text \<open>
  Modelled from the spec: a pure reduction, for \<^verbatim>\<open>Position.update\<close> below, is a
  transaction against the direction of the holding and no larger than it.
\<close>

definition pure_reduction :: "position \<Rightarrow> transaction \<Rightarrow> bool" where
  "pure_reduction p txn \<longleftrightarrow>
     sgn (txn_amount txn) \<noteq> sgn (amount p) \<and> \<bar>txn_amount txn\<bar> \<le> \<bar>amount p\<bar>"

text \<open>
  Modelled from the spec: \<^verbatim>\<open>Position.update\<close> (also in \<^verbatim>\<open>position.py\<close>). Applying a
  transaction adds its quantity delta to \<open>amount\<close>; the cost basis becomes the
  quantity-weighted average of the old basis and the execution price when the position
  grows or flips, and stays as it is on a pure reduction.
\<close>

definition Position_update :: "position \<Rightarrow> transaction \<Rightarrow> position" where
  "Position_update p txn =
     (let total_shares = amount p + txn_amount txn;
          total_cost = cost_basis p * of_int (amount p) + txn_price txn * of_int (txn_amount txn)
      in p\<lparr>amount := total_shares,
           cost_basis :=
             (if pure_reduction p txn \<or> total_shares = 0 then cost_basis p
              else total_cost / of_int total_shares)\<rparr>)"

subsection \<open>PositionTracker\<close>

record position_stats =
  net_exposure :: real
  gross_value :: real
  gross_exposure :: real
  short_value :: real
  short_exposure :: real
  shorts_count :: nat
  long_value :: real
  long_exposure :: real
  longs_count :: nat
  net_value :: real

text \<open>
  Modelled from the spec: the obligation records that \<^verbatim>\<open>Position.earn_dividend\<close> and
  \<^verbatim>\<open>Position.earn_stock_dividend\<close> (\<^verbatim>\<open>position.py\<close>) hand over: the amount owed, or the
  payment instrument and the share count owed. \<^verbatim>\<open>pay_dividends\<close> reads the keys
  \<^verbatim>\<open>'amount'\<close>, \<^verbatim>\<open>'payment_asset'\<close> and \<^verbatim>\<open>'share_count'\<close>.
\<close>

record cash_payment =
  pay_asset :: asset
  pay_amount :: real

record stock_payment =
  payment_asset :: asset
  share_count :: int

record position_tracker =
  positions :: "(asset \<times> position) list"
  unpaid_dividends :: "(timestamp \<times> cash_payment list) list"
  unpaid_stock_dividends :: "(timestamp \<times> stock_payment list) list"
  positions_store :: "(asset \<times> position) list"
  dirty_stats :: bool
  cached_stats :: "position_stats option"

definition PositionTracker :: position_tracker where
  "PositionTracker =
     \<lparr>positions = [], unpaid_dividends = [], unpaid_stock_dividends = [],
      positions_store = [], dirty_stats = True, cached_stats = None\<rparr>"

definition execute_transaction :: "position_tracker \<Rightarrow> transaction \<Rightarrow> position_tracker" where
  "execute_transaction pt txn =
     (let a = txn_asset txn;
          position = (case map_of (positions pt) a of None \<Rightarrow> Position a | Some p \<Rightarrow> p);
          position' = Position_update position txn
      in if amount position' = 0
         then pt\<lparr>dirty_stats := True,
                 positions := AList.delete a (positions pt),
                 positions_store := AList.delete a (positions_store pt)\<rparr>
         else pt\<lparr>dirty_stats := True,
                 positions := AList.update a position' (positions pt)\<rparr>)"

text \<open>The second loop of \<^verbatim>\<open>pay_dividends\<close>, over the stock payments of the day.\<close>

fun pay_stock_payments ::
  "(asset \<times> position) list \<Rightarrow> stock_payment list \<Rightarrow> (asset \<times> position) list" where
  "pay_stock_payments ps [] = ps"
| "pay_stock_payments ps (stock_payment # rest) =
     (let position = (case map_of ps (payment_asset stock_payment) of
                        Some p \<Rightarrow> p
                      | None \<Rightarrow> Position (payment_asset stock_payment))
      in pay_stock_payments
           (AList.update (payment_asset stock_payment)
              (position\<lparr>amount := amount position + share_count stock_payment\<rparr>) ps)
           rest)"

definition pay_dividends :: "position_tracker \<Rightarrow> timestamp \<Rightarrow> real \<times> position_tracker" where
  "pay_dividends pt next_trading_day =
     (let (payments, unpaid) =
            (case map_of (unpaid_dividends pt) next_trading_day of
               Some ps \<Rightarrow> (ps, AList.delete next_trading_day (unpaid_dividends pt))
             | None \<Rightarrow> ([], unpaid_dividends pt));
          net_cash_payment = foldl (\<lambda>acc payment. acc + pay_amount payment) 0 payments;
          stock_payments =
            (case map_of (unpaid_stock_dividends pt) next_trading_day of
               Some sps \<Rightarrow> sps
             | None \<Rightarrow> [])
      in (net_cash_payment,
          pt\<lparr>unpaid_dividends := unpaid,
             positions := pay_stock_payments (positions pt) stock_payments\<rparr>))"

text \<open>
  The data portal is an external collaborator; it is a parameter of the model. An undefined
  price (\<^verbatim>\<open>NaN\<close>) is \<open>None\<close>.
\<close>

record data_portal =
  get_spot_value :: "asset \<Rightarrow> timestamp \<Rightarrow> real option"
  get_adjusted_value :: "asset \<Rightarrow> timestamp \<Rightarrow> timestamp \<Rightarrow> real option"
  previous_minute :: "timestamp \<Rightarrow> timestamp"

definition set_last_sale_price :: "real option \<Rightarrow> position \<Rightarrow> position" where
  "set_last_sale_price price p =
     (case price of None \<Rightarrow> p | Some v \<Rightarrow> p\<lparr>last_sale_price := v\<rparr>)"

definition PositionTracker_sync_last_sale_prices ::
  "position_tracker \<Rightarrow> timestamp \<Rightarrow> data_portal \<Rightarrow> bool \<Rightarrow> position_tracker" where
  "PositionTracker_sync_last_sale_prices pt dt dp handle_non_market_minutes =
     (if \<not> handle_non_market_minutes
      then pt\<lparr>dirty_stats := True,
              positions :=
                map (\<lambda>(a, p). (a, set_last_sale_price (get_spot_value dp a dt) p))
                  (positions pt)\<rparr>
      else pt\<lparr>dirty_stats := True,
              positions :=
                map (\<lambda>(a, p).
                       (a, set_last_sale_price
                             (get_adjusted_value dp a (previous_minute dp dt) dt) p))
                  (positions pt)\<rparr>)"

text \<open>The body of the loop of \<^verbatim>\<open>stats\<close>, on the running totals.\<close>

record totals =
  t_net_value :: real
  t_long_value :: real
  t_short_value :: real
  t_long_exposure :: real
  t_short_exposure :: real
  t_longs_count :: nat
  t_shorts_count :: nat

definition position_exposure :: "position \<Rightarrow> real" where
  "position_exposure p =
     (case asset p of
        Future sid m \<Rightarrow> of_int (amount p) * last_sale_price p * m
      | Equity sid \<Rightarrow> of_int (amount p) * last_sale_price p)"

definition position_value :: "position \<Rightarrow> real" where
  "position_value p =
     (case asset p of
        Future sid m \<Rightarrow> 0
      | Equity sid \<Rightarrow> of_int (amount p) * last_sale_price p)"

definition stats_step :: "totals \<Rightarrow> position \<Rightarrow> totals" where
  "stats_step t p =
     (let exposure = position_exposure p;
          val = position_value p;
          t' = (if exposure > 0
                then t\<lparr>t_longs_count := t_longs_count t + 1,
                       t_long_value := t_long_value t + val,
                       t_long_exposure := exposure\<rparr>
                else if exposure < 0
                then t\<lparr>t_shorts_count := t_shorts_count t + 1,
                       t_short_value := t_short_value t + val,
                       t_short_exposure := t_short_exposure t + exposure\<rparr>
                else t)
      in t'\<lparr>t_net_value := t_net_value t' + val\<rparr>)"

definition compute_stats :: "(asset \<times> position) list \<Rightarrow> position_stats" where
  "compute_stats ps =
     (let t = foldl stats_step
                \<lparr>t_net_value = 0, t_long_value = 0, t_short_value = 0,
                 t_long_exposure = 0, t_short_exposure = 0,
                 t_longs_count = 0, t_shorts_count = 0\<rparr>
                (map snd ps)
      in \<lparr>net_exposure = t_long_exposure t + t_short_exposure t,
          gross_value = t_long_value t - t_short_value t,
          gross_exposure = t_long_exposure t - t_short_exposure t,
          short_value = t_short_value t,
          short_exposure = t_short_exposure t,
          shorts_count = t_shorts_count t,
          long_value = t_long_value t,
          long_exposure = t_long_exposure t,
          longs_count = t_longs_count t,
          net_value = t_net_value t\<rparr>)"

text \<open>
  The property \<^verbatim>\<open>stats\<close>. It returns the cache when the tracker is clean (the cache starts
  as \<^verbatim>\<open>None\<close>) and stores what it recomputes; the source leaves \<^verbatim>\<open>_dirty_stats\<close> as it is.
\<close>

definition stats :: "position_tracker \<Rightarrow> position_stats option \<times> position_tracker" where
  "stats pt =
     (if \<not> dirty_stats pt then (cached_stats pt, pt)
      else (Some (compute_stats (positions pt)),
            pt\<lparr>cached_stats := Some (compute_stats (positions pt))\<rparr>))"

subsection \<open>Ledger\<close>

text \<open>
  Modelled from the spec: the portfolio snapshot \<^verbatim>\<open>zp.Portfolio\<close> belongs to
  \<^verbatim>\<open>zipline/protocol.py\<close>, which is not among the sources. The spec lists its fields
  (cash, starting cash, cash flow, portfolio value, positions value, positions exposure,
  pnl, returns); a new snapshot starts from the capital base with no flow, no pnl and no
  returns, as the spec's first scenario has it (starting cash 100000, cash 99900 after a
  flow of -100).
\<close>

record portfolio =
  cash_flow :: real
  starting_cash :: real
  portfolio_value :: real
  pnl :: real
  returns :: real
  cash :: real
  positions_value :: real
  positions_exposure :: real

text \<open>
  Modelled from the spec: the constructor \<^verbatim>\<open>zp.Portfolio(start_date, capital_base)\<close>.
\<close>

definition Portfolio :: "real \<Rightarrow> portfolio" where
  "Portfolio capital_base =
     \<lparr>cash_flow = 0, starting_cash = capital_base, portfolio_value = capital_base,
      pnl = 0, returns = 0, cash = capital_base, positions_value = 0,
      positions_exposure = 0\<rparr>"

text \<open>
  Modelled from the spec: the account snapshot \<^verbatim>\<open>zp.Account\<close> (\<^verbatim>\<open>zipline/protocol.py\<close>).
  The ledger reads and writes it through \<^verbatim>\<open>vars(account)\<close>, a dictionary from field names
  to values; so is the set of overrides. The ledger is born with a dirty account, and the
  first read assigns every field, so the dictionary starts empty here.
\<close>

type_synonym account = "(string \<times> xreal) list"

record ledger =
  dirty_portfolio :: bool
  portfolio_dirty :: "bool option"
  ledger_portfolio :: portfolio
  dirty_account :: bool
  ledger_account :: account
  account_overrides :: account
  position_tracker :: position_tracker
  processed_transactions :: "(timestamp \<times> transaction list) list"
  orders_by_modified :: "(timestamp \<times> (nat \<times> order) list) list"
  orders_by_id :: "(nat \<times> order) list"
  payout_last_sale_prices :: "(asset \<times> real) list"

text \<open>
  \<open>dirty_portfolio\<close> is the attribute \<^verbatim>\<open>__dirty_portfolio\<close> behind the property
  \<^verbatim>\<open>_dirty_portfolio\<close>. \<open>portfolio_dirty\<close> is the attribute \<^verbatim>\<open>_portfolio_dirty\<close>: it does
  not exist (\<open>None\<close>) until \<^verbatim>\<open>sync_last_sale_prices\<close> assigns it, and nothing reads it.
\<close>

definition Ledger :: "real \<Rightarrow> ledger" where
  "Ledger capital_base =
     \<lparr>dirty_portfolio = False, portfolio_dirty = None,
      ledger_portfolio = Portfolio capital_base,
      dirty_account = True, ledger_account = [], account_overrides = [],
      position_tracker = PositionTracker,
      processed_transactions = [], orders_by_modified = [], orders_by_id = [],
      payout_last_sale_prices = []\<rparr>"

text \<open>The setter of \<^verbatim>\<open>_dirty_portfolio\<close>.\<close>

definition set_dirty_portfolio :: "bool \<Rightarrow> ledger \<Rightarrow> ledger" where
  "set_dirty_portfolio v l =
     (if v then l\<lparr>dirty_portfolio := v, dirty_account := v\<rparr>
      else l\<lparr>dirty_portfolio := v\<rparr>)"

definition sync_last_sale_prices ::
  "ledger \<Rightarrow> timestamp \<Rightarrow> data_portal \<Rightarrow> bool \<Rightarrow> ledger" where
  "sync_last_sale_prices l dt dp handle_non_market_minutes =
     l\<lparr>position_tracker :=
         PositionTracker_sync_last_sale_prices (position_tracker l) dt dp
           handle_non_market_minutes,
       portfolio_dirty := Some True\<rparr>"

definition calculate_execution_cash_flow :: "transaction \<Rightarrow> real" where
  "calculate_execution_cash_flow txn =
     (if isinstance_Future (txn_asset txn) then 0
      else -1 * txn_price txn * of_int (txn_amount txn))"

definition calculate_payout :: "real \<Rightarrow> int \<Rightarrow> real \<Rightarrow> real \<Rightarrow> real" where
  "calculate_payout m a old_price price = (price - old_price) * m * of_int a"

text \<open>The tail of \<^verbatim>\<open>process_transaction\<close>: the journal keyed by the transaction's time.\<close>

definition journal_transaction :: "ledger \<Rightarrow> transaction \<Rightarrow> ledger" where
  "journal_transaction l txn =
     l\<lparr>processed_transactions :=
         (case map_of (processed_transactions l) (txn_dt txn) of
            Some txns \<Rightarrow>
              AList.update (txn_dt txn) (txns @ [txn]) (processed_transactions l)
          | None \<Rightarrow> AList.update (txn_dt txn) [txn] (processed_transactions l))\<rparr>"

definition add_cash_flow :: "real \<Rightarrow> ledger \<Rightarrow> ledger" where
  "add_cash_flow x l =
     l\<lparr>ledger_portfolio :=
         (ledger_portfolio l)\<lparr>cash_flow := cash_flow (ledger_portfolio l) + x\<rparr>\<rparr>"

definition add_cash :: "real \<Rightarrow> ledger \<Rightarrow> ledger" where
  "add_cash x l =
     l\<lparr>ledger_portfolio := (ledger_portfolio l)\<lparr>cash := cash (ledger_portfolio l) + x\<rparr>\<rparr>"

text \<open>
  Modelled from the spec: \<^verbatim>\<open>positiondict\<close>, the type of the book, is declared in
  \<^verbatim>\<open>position.py\<close>. By the spec the book is a mapping from instrument to position, and
  looking up an instrument that is not held fails.
\<close>

definition positiondict_getitem :: "(asset \<times> position) list \<Rightarrow> asset \<Rightarrow> error + position" where
  "positiondict_getitem ps a = getitem ps a"

text \<open>
  Modelled from the spec: the attribute \<^verbatim>\<open>amount\<close> read on the book itself. The book is a
  mapping from instrument to position; a mapping has no such attribute, so the read raises.
\<close>

definition positiondict_amount :: "(asset \<times> position) list \<Rightarrow> error + int" where
  "positiondict_amount ps = Inl AttributeError"

text \<open>
  \<^verbatim>\<open>process_transaction\<close>. The position tracker executes the transaction first; the
  amount that the payout uses is read from the book afterwards.
\<close>

definition process_transaction :: "ledger \<Rightarrow> transaction \<Rightarrow> error + ledger" where
  "process_transaction l txn =
     (let l1 = add_cash_flow (calculate_execution_cash_flow txn)
                 (set_dirty_portfolio True
                    (l\<lparr>position_tracker := execute_transaction (position_tracker l) txn\<rparr>));
          a = txn_asset txn
      in case a of
           Equity sid \<Rightarrow> Inr (journal_transaction l1 txn)
         | Future sid m \<Rightarrow>
             (case map_of (payout_last_sale_prices l1) a of
                None \<Rightarrow>
                  Inr (journal_transaction
                         (l1\<lparr>payout_last_sale_prices :=
                               AList.update a (txn_price txn) (payout_last_sale_prices l1)\<rparr>)
                         txn)
              | Some old_price \<Rightarrow>
                  (case positiondict_getitem (positions (position_tracker l1)) a of
                     Inl e \<Rightarrow> Inl e
                   | Inr position \<Rightarrow>
                       (let l2 = add_cash
                                   (calculate_payout m (amount position) old_price
                                      (txn_price txn))
                                   (set_dirty_portfolio True l1)
                        in Inr (journal_transaction
                                  (l2\<lparr>payout_last_sale_prices :=
                                        (if amount position + txn_amount txn = 0
                                         then AList.delete a (payout_last_sale_prices l2)
                                         else AList.update a (txn_price txn)
                                                (payout_last_sale_prices l2))\<rparr>)
                                  txn)))))"

text \<open>\<^verbatim>\<open>move_to_end(d, key, last=True)\<close> of an ordered dictionary.\<close>

definition move_to_end :: "('k \<times> 'v) list \<Rightarrow> 'k \<Rightarrow> error + ('k \<times> 'v) list" where
  "move_to_end d k =
     (case map_of d k of
        None \<Rightarrow> Inl KeyError
      | Some v \<Rightarrow> Inr (AList.delete k d @ [(k, v)]))"

text \<open>\<^verbatim>\<open>process_order\<close>; the order's dictionary form is the order record itself.\<close>

definition process_order :: "ledger \<Rightarrow> order \<Rightarrow> error + ledger" where
  "process_order l ord =
     (case map_of (orders_by_modified l) (order_dt ord) of
        None \<Rightarrow>
          Inr (l\<lparr>orders_by_modified :=
                   AList.update (order_dt ord) [(order_id ord, ord)] (orders_by_modified l),
                 orders_by_id := AList.update (order_id ord) ord (orders_by_id l)\<rparr>)
      | Some dt_orders \<Rightarrow>
          (case move_to_end (AList.update (order_id ord) ord dt_orders) (order_id ord) of
             Inl e \<Rightarrow> Inl e
           | Inr dt_orders' \<Rightarrow>
               (case move_to_end (AList.update (order_id ord) ord (orders_by_id l))
                       (order_id ord) of
                  Inl e \<Rightarrow> Inl e
                | Inr by_id \<Rightarrow>
                    Inr (l\<lparr>orders_by_modified :=
                             AList.update (order_dt ord) dt_orders' (orders_by_modified l),
                           orders_by_id := by_id\<rparr>))))"

definition capital_change :: "ledger \<Rightarrow> real \<Rightarrow> ledger" where
  "capital_change l change_amount =
     l\<lparr>ledger_portfolio :=
         (ledger_portfolio l)
           \<lparr>portfolio_value := portfolio_value (ledger_portfolio l) + change_amount,
            cash := cash (ledger_portfolio l) + change_amount\<rparr>\<rparr>"

text \<open>
  \<^verbatim>\<open>_get_payout_total\<close>. The loop reads \<^verbatim>\<open>positions[asset]\<close> and then the attribute
  \<^verbatim>\<open>amount\<close> of \<^verbatim>\<open>positions\<close>, the book itself.
\<close>

fun get_payout_total ::
  "(asset \<times> real) list \<Rightarrow> (asset \<times> position) list \<Rightarrow> real \<Rightarrow> error + real" where
  "get_payout_total [] ps acc = Inr acc"
| "get_payout_total ((a, old_price) # rest) ps acc =
     (case positiondict_getitem ps a of
        Inl e \<Rightarrow> Inl e
      | Inr position \<Rightarrow>
          (case positiondict_amount ps of
             Inl e \<Rightarrow> Inl e
           | Inr amt \<Rightarrow>
               (case multiplier a of
                  Inl e \<Rightarrow> Inl e
                | Inr m \<Rightarrow>
                    get_payout_total rest ps
                      (acc + calculate_payout m amt old_price (last_sale_price position)))))"

text \<open>
  The property \<^verbatim>\<open>portfolio\<close>. The snapshot is rebuilt in place, so the result is the
  ledger, whose \<open>ledger_portfolio\<close> is the object the property returns.
\<close>

definition portfolio :: "ledger \<Rightarrow> error + ledger" where
  "portfolio l =
     (if \<not> dirty_portfolio l then Inr l
      else case stats (position_tracker l) of
        (None, pt) \<Rightarrow> Inl AttributeError
      | (Some position_stats, pt) \<Rightarrow>
          (case get_payout_total (payout_last_sale_prices l) (positions pt) 0 of
             Inl e \<Rightarrow> Inl e
           | Inr payout \<Rightarrow>
               (let p = ledger_portfolio l;
                    new_cash = starting_cash p + cash_flow p + payout;
                    start_value = portfolio_value p;
                    end_value = new_cash + net_value position_stats;
                    pnl_delta = end_value - start_value;
                    ret = (if start_value \<noteq> 0 then pnl_delta / start_value else 0)
                in Inr (set_dirty_portfolio False
                          (l\<lparr>position_tracker := pt,
                             ledger_portfolio :=
                               p\<lparr>positions_value := net_value position_stats,
                                 positions_exposure := net_exposure position_stats,
                                 cash := new_cash,
                                 portfolio_value := end_value,
                                 pnl := pnl p + pnl_delta,
                                 returns := (1 + returns p) * (1 + ret) - 1\<rparr>\<rparr>)))))"

definition calculate_net_liquidation :: "real \<Rightarrow> real \<Rightarrow> real \<Rightarrow> real" where
  "calculate_net_liquidation ending_cash long_v short_v = ending_cash + long_v + short_v"

definition calculate_leverage :: "real \<Rightarrow> real \<Rightarrow> xreal" where
  "calculate_leverage exposure net_liquidation =
     (if net_liquidation \<noteq> 0 then Fin (exposure / net_liquidation) else PInf)"

definition calculate_period_stats ::
  "ledger \<Rightarrow> error + ((real \<times> xreal \<times> xreal) \<times> ledger)" where
  "calculate_period_stats l =
     (case stats (position_tracker l) of
        (None, pt) \<Rightarrow> Inl AttributeError
      | (Some position_stats, pt) \<Rightarrow>
          (let net_liquidation =
                 calculate_net_liquidation (cash (ledger_portfolio l))
                   (long_value position_stats) (short_value position_stats)
           in Inr ((net_liquidation,
                    calculate_leverage (gross_exposure position_stats) net_liquidation,
                    calculate_leverage (net_exposure position_stats) net_liquidation),
                   l\<lparr>position_tracker := pt\<rparr>)))"

text \<open>Python's \<^verbatim>\<open>/\<close> on numbers: a zero divisor raises.\<close>

definition py_div :: "real \<Rightarrow> real \<Rightarrow> error + real" where
  "py_div x y = (if y = 0 then Inl ZeroDivisionError else Inr (x / y))"

text \<open>\<^verbatim>\<open>d.update(other)\<close>, and a run of assignments \<^verbatim>\<open>d[k] = v\<close>.\<close>

definition dict_update :: "('k \<times> 'v) list \<Rightarrow> ('k \<times> 'v) list \<Rightarrow> ('k \<times> 'v) list" where
  "dict_update d other = foldl (\<lambda>acc (k, v). AList.update k v acc) d other"

text \<open>The property \<^verbatim>\<open>account\<close>; the result is the ledger, as for \<open>portfolio\<close>.\<close>

definition account :: "ledger \<Rightarrow> error + ledger" where
  "account l =
     (if \<not> dirty_account l then Inr l
      else case portfolio l of
        Inl e \<Rightarrow> Inl e
      | Inr l1 \<Rightarrow>
          (let p = ledger_portfolio l1
           in case py_div (cash p) (portfolio_value p) of
                Inl e \<Rightarrow> Inl e
              | Inr cushion \<Rightarrow>
                  (case calculate_period_stats l1 of
                     Inl e \<Rightarrow> Inl e
                   | Inr ((net_liquidation, gross_leverage, net_leverage), l2) \<Rightarrow>
                       Inr (l2\<lparr>ledger_account :=
                                 dict_update
                                   (dict_update (ledger_account l2)
                                      [(''settled_cash'', Fin (cash p)),
                                       (''accrued_interest'', Fin 0),
                                       (''buying_power'', PInf),
                                       (''equity_with_loan'', Fin (portfolio_value p)),
                                       (''total_positions_value'',
                                          Fin (portfolio_value p - cash p)),
                                       (''total_positions_exposure'',
                                          Fin (positions_exposure p)),
                                       (''regt_equity'', Fin (cash p)),
                                       (''regt_margin'', PInf),
                                       (''initial_margin_requirement'', Fin 0),
                                       (''maintenance_margin_requirement'', Fin 0),
                                       (''available_funds'', Fin (cash p)),
                                       (''excess_liquidity'', Fin (cash p)),
                                       (''cushion'', Fin cushion),
                                       (''day_trades_remaining'', PInf),
                                       (''net_liquidation'', Fin net_liquidation),
                                       (''gross_leverage'', gross_leverage),
                                       (''net_leverage'', net_leverage)])
                                   (account_overrides l2),
                               dirty_account := False\<rparr>))))"

text \<open>
  \<^verbatim>\<open>maybe_create_close_position_transaction\<close> and \<^verbatim>\<open>close_position\<close>. The closing
  transaction takes the spot price, or the last sale price when the spot price is
  undefined.
\<close>

definition maybe_create_close_position_transaction ::
  "position_tracker \<Rightarrow> asset \<Rightarrow> timestamp \<Rightarrow> data_portal \<Rightarrow> transaction option" where
  "maybe_create_close_position_transaction pt a dt dp =
     (case map_of (positions pt) a of
        None \<Rightarrow> None
      | Some p \<Rightarrow>
          Some \<lparr>txn_asset = a, txn_amount = -1 * amount p, txn_dt = dt,
                txn_price = (case get_spot_value dp a dt of
                               None \<Rightarrow> last_sale_price p
                             | Some price \<Rightarrow> price),
                txn_order_id = None\<rparr>)"

definition close_position ::
  "ledger \<Rightarrow> asset \<Rightarrow> timestamp \<Rightarrow> data_portal \<Rightarrow> error + ledger" where
  "close_position l a dt dp =
     (case maybe_create_close_position_transaction (position_tracker l) a dt dp of
        None \<Rightarrow> Inr l
      | Some txn \<Rightarrow> process_transaction l txn)"

text \<open>\<^verbatim>\<open>override_account_fields\<close>; the argument holds the fields that were passed.\<close>

definition override_account_fields :: "ledger \<Rightarrow> account \<Rightarrow> ledger" where
  "override_account_fields l kwargs = l\<lparr>dirty_account := True, account_overrides := kwargs\<rparr>"

text \<open>
  The mutating entry points of the ledger that are modelled above, as events, and a batch
  of them run in order. \<^verbatim>\<open>capital_change\<close> is deliberately not among them; commissions,
  splits and dividends go through methods of \<^verbatim>\<open>Position\<close> that the sources do not hold.
\<close>

datatype mutation =
  Process_transaction transaction
| Process_order order
| Sync_last_sale_prices timestamp data_portal bool
| Close_position asset timestamp data_portal
| Override_account_fields account

fun apply_mutation :: "ledger \<Rightarrow> mutation \<Rightarrow> error + ledger" where
  "apply_mutation l (Process_transaction txn) = process_transaction l txn"
| "apply_mutation l (Process_order ord) = process_order l ord"
| "apply_mutation l (Sync_last_sale_prices dt dp h) = Inr (sync_last_sale_prices l dt dp h)"
| "apply_mutation l (Close_position a dt dp) = close_position l a dt dp"
| "apply_mutation l (Override_account_fields kwargs) = Inr (override_account_fields l kwargs)"

fun apply_mutations :: "ledger \<Rightarrow> mutation list \<Rightarrow> error + ledger" where
  "apply_mutations l [] = Inr l"
| "apply_mutations l (m # ms) =
     (case apply_mutation l m of Inl e \<Rightarrow> Inl e | Inr l' \<Rightarrow> apply_mutations l' ms)"

subsection \<open>Helpers for stating the properties\<close>

text \<open>Constructors of the event records, for concrete runs.\<close>

definition Transaction :: "asset \<Rightarrow> int \<Rightarrow> timestamp \<Rightarrow> real \<Rightarrow> transaction" where
  "Transaction a n dt price =
     \<lparr>txn_asset = a, txn_amount = n, txn_dt = dt, txn_price = price, txn_order_id = None\<rparr>"

definition Order :: "nat \<Rightarrow> timestamp \<Rightarrow> int \<Rightarrow> int \<Rightarrow> order" where
  "Order i dt n filled =
     \<lparr>order_id = i, order_dt = dt, order_amount = n, order_filled = filled\<rparr>"

text \<open>A data portal that quotes one price for every instrument at every time.\<close>

definition quote :: "real \<Rightarrow> data_portal" where
  "quote price =
     \<lparr>get_spot_value = (\<lambda>a dt. Some price),
      get_adjusted_value = (\<lambda>a start dt. Some price),
      previous_minute = (\<lambda>dt. dt - 1)\<rparr>"

text \<open>One call after another; an exception of the first ends the run.\<close>

definition and_then :: "error + 'a \<Rightarrow> ('a \<Rightarrow> error + 'b) \<Rightarrow> error + 'b" where
  "and_then r f = (case r of Inl e \<Rightarrow> Inl e | Inr x \<Rightarrow> f x)"

text \<open>The quantity of an instrument in the book; nothing when the instrument is absent.\<close>

definition held_amount :: "position_tracker \<Rightarrow> asset \<Rightarrow> int" where
  "held_amount pt a = (case map_of (positions pt) a of None \<Rightarrow> 0 | Some p \<Rightarrow> amount p)"

text \<open>The book as instruments with their quantities, in the book's order.\<close>

definition amounts :: "position_tracker \<Rightarrow> (asset \<times> int) list" where
  "amounts pt = map (\<lambda>(a, p). (a, amount p)) (positions pt)"

section \<open>Properties\<close>

text \<open>The equations that evaluate a concrete run.\<close>

lemmas model_defs =
  and_then_def quote_def Transaction_def Order_def Ledger_def Portfolio_def PositionTracker_def
  Position_def Position_update_def pure_reduction_def execute_transaction_def
  process_transaction_def journal_transaction_def add_cash_def add_cash_flow_def
  set_dirty_portfolio_def calculate_execution_cash_flow_def calculate_payout_def
  getitem_def positiondict_getitem_def sync_last_sale_prices_def
  PositionTracker_sync_last_sale_prices_def set_last_sale_price_def portfolio_def stats_def compute_stats_def stats_step_def
  position_exposure_def position_value_def positiondict_amount_def
  process_order_def move_to_end_def pay_dividends_def amounts_def held_amount_def Let_def

subsection \<open>The book holds no empty position\<close>

lemma Position_update_amount: "amount (Position_update p txn) = amount p + txn_amount txn"
  by (simp add: Position_update_def Let_def)

lemma execute_transaction_held:
  "held_amount (execute_transaction pt txn) (txn_asset txn) =
     held_amount pt (txn_asset txn) + txn_amount txn"
  by (auto simp: held_amount_def execute_transaction_def Let_def Position_update_amount
        Position_def AList.update_conv' AList.delete_conv' split: option.splits)

lemma execute_transaction_absent_iff:
  "map_of (positions (execute_transaction pt txn)) (txn_asset txn) = None \<longleftrightarrow>
     held_amount (execute_transaction pt txn) (txn_asset txn) = 0"
  by (auto simp: held_amount_def execute_transaction_def Let_def Position_update_amount
        Position_def AList.update_conv' AList.delete_conv' split: option.splits)

lemma foldl_execute_transaction_held:
  "\<forall>t \<in> set ts. txn_asset t = a \<Longrightarrow>
   held_amount (foldl execute_transaction pt ts) a =
     held_amount pt a + (\<Sum>t\<leftarrow>ts. txn_amount t)"
proof (induction ts arbitrary: pt)
  case Nil
  then show ?case by simp
next
  case (Cons t ts)
  have "held_amount (execute_transaction pt t) a = held_amount pt a + txn_amount t"
    using Cons.prems execute_transaction_held [of pt t] by simp
  moreover have "\<forall>t \<in> set ts. txn_asset t = a" using Cons.prems by simp
  ultimately show ?case using Cons.IH [of "execute_transaction pt t"] by simp
qed

lemma foldl_execute_transaction_absent_iff:
  "\<forall>t \<in> set ts. txn_asset t = a \<Longrightarrow>
   (map_of (positions pt) a = None \<longleftrightarrow> held_amount pt a = 0) \<Longrightarrow>
   (map_of (positions (foldl execute_transaction pt ts)) a = None \<longleftrightarrow>
      held_amount (foldl execute_transaction pt ts) a = 0)"
proof (induction ts arbitrary: pt)
  case Nil
  then show ?case by simp
next
  case (Cons t ts)
  have "txn_asset t = a" using Cons.prems(1) by simp
  then have "map_of (positions (execute_transaction pt t)) a = None \<longleftrightarrow>
      held_amount (execute_transaction pt t) a = 0"
    using execute_transaction_absent_iff [of pt t] by simp
  moreover have "\<forall>t \<in> set ts. txn_asset t = a" using Cons.prems(1) by simp
  ultimately show ?case using Cons.IH [of "execute_transaction pt t"] by simp
qed

text \<open>
  Claim C7. Take a book that does not hold the instrument \<open>a\<close>, and execute any sequence
  of transactions in \<open>a\<close> through \<^verbatim>\<open>execute_transaction\<close>. Afterwards \<open>a\<close> is absent from
  the book exactly when the signed quantities of the sequence add up to zero.
\<close>

theorem position_absent_iff_net_zero:
  assumes "\<forall>t \<in> set ts. txn_asset t = a"
    and "a \<notin> fst ` set (positions pt)"
  shows "a \<notin> fst ` set (positions (foldl execute_transaction pt ts)) \<longleftrightarrow>
           (\<Sum>t\<leftarrow>ts. txn_amount t) = 0"
proof -
  have absent: "map_of (positions pt) a = None"
    using assms(2) by (simp add: map_of_eq_None_iff)
  then have start: "held_amount pt a = 0" by (simp add: held_amount_def)
  have "map_of (positions (foldl execute_transaction pt ts)) a = None \<longleftrightarrow>
          held_amount (foldl execute_transaction pt ts) a = 0"
    using assms(1) absent start by (intro foldl_execute_transaction_absent_iff) simp_all
  also have "\<dots> \<longleftrightarrow> (\<Sum>t\<leftarrow>ts. txn_amount t) = 0"
    using foldl_execute_transaction_held [OF assms(1), of pt] start by simp
  finally show ?thesis by (simp add: map_of_eq_None_iff)
qed

theorem position_absent_iff_net_zero_witness:
  "Equity 1 \<notin> fst ` set (positions (foldl execute_transaction PositionTracker
      [Transaction (Equity 1) 10 1 10, Transaction (Equity 1) (-4) 2 11,
       Transaction (Equity 1) (-6) 3 12]))
   \<and> Equity 1 \<in> fst ` set (positions (foldl execute_transaction PositionTracker
      [Transaction (Equity 1) 10 1 10, Transaction (Equity 1) (-4) 2 11]))"
proof -
  have closed:
    "\<forall>t \<in> set [Transaction (Equity 1) 10 1 10, Transaction (Equity 1) (-4) 2 11,
                Transaction (Equity 1) (-6) 3 12]. txn_asset t = Equity 1"
    by (simp add: Transaction_def)
  have opened:
    "\<forall>t \<in> set [Transaction (Equity 1) 10 1 10, Transaction (Equity 1) (-4) 2 11].
       txn_asset t = Equity 1"
    by (simp add: Transaction_def)
  have fresh: "Equity 1 \<notin> fst ` set (positions PositionTracker)"
    by (simp add: PositionTracker_def)
  show ?thesis
    using position_absent_iff_net_zero [OF closed fresh]
      position_absent_iff_net_zero [OF opened fresh]
    by (simp add: Transaction_def)
qed

subsection \<open>Leverage and the account snapshot\<close>

text \<open>
  Claim C8. When the position statistics are available, \<^verbatim>\<open>calculate_period_stats\<close>
  returns (it does not raise) the net liquidation value \<open>cash + long_value + short_value\<close>;
  both leverages are positive infinity when that value is zero, whatever the exposures,
  and the exposure divided by it otherwise.
\<close>

theorem period_stats_leverage:
  assumes "stats (position_tracker l) = (Some ps, pt)"
    and "nl = cash (ledger_portfolio l) + long_value ps + short_value ps"
  shows "\<exists>gross net l'.
           calculate_period_stats l = Inr ((nl, gross, net), l') \<and>
           (nl = 0 \<longrightarrow> gross = PInf \<and> net = PInf) \<and>
           (nl \<noteq> 0 \<longrightarrow> gross = Fin (gross_exposure ps / nl) \<and>
                           net = Fin (net_exposure ps / nl))"
  using assms
  by (simp add: calculate_period_stats_def calculate_net_liquidation_def
        calculate_leverage_def Let_def)

theorem period_stats_leverage_witness:
  "(\<exists>l'. and_then
           (and_then
              (apply_mutations (Ledger 20)
                 [Process_transaction (Transaction (Equity 1) (-10) 1 10),
                  Sync_last_sale_prices 2 (quote 12) False])
              portfolio)
           calculate_period_stats = Inr ((0, PInf, PInf), l')) \<and>
   (\<exists>l'. and_then
           (and_then
              (apply_mutations (Ledger 1000)
                 [Process_transaction (Transaction (Equity 1) (-10) 1 10),
                  Sync_last_sale_prices 2 (quote 12) False])
              portfolio)
           calculate_period_stats = Inr ((980, Fin (6 / 49), Fin (- (6 / 49))), l'))"
proof -
  define b where "b = [Process_transaction (Transaction (Equity 1) (-10) 1 10),
                  Sync_last_sale_prices 2 (quote 12) False]"
  define l0 where "l0 = projr (and_then (apply_mutations (Ledger 20) b) portfolio)"
  define l1 where "l1 = projr (and_then (apply_mutations (Ledger 1000) b) portfolio)"
  have r0: "and_then (apply_mutations (Ledger 20) b) portfolio = Inr l0"
    unfolding l0_def b_def by (simp add: model_defs)
  have r1: "and_then (apply_mutations (Ledger 1000) b) portfolio = Inr l1"
    unfolding l1_def b_def by (simp add: model_defs)
  have s0: "stats (position_tracker l0) =
      (Some (compute_stats (positions (position_tracker l0))),
       (position_tracker l0)\<lparr>cached_stats := Some (compute_stats (positions (position_tracker l0)))\<rparr>)"
    unfolding l0_def b_def by (simp add: model_defs)
  have s1: "stats (position_tracker l1) =
      (Some (compute_stats (positions (position_tracker l1))),
       (position_tracker l1)\<lparr>cached_stats := Some (compute_stats (positions (position_tracker l1)))\<rparr>)"
    unfolding l1_def b_def by (simp add: model_defs)
  have v0: "cash (ledger_portfolio l0) = 120 \<and>
      long_value (compute_stats (positions (position_tracker l0))) = 0 \<and>
      short_value (compute_stats (positions (position_tracker l0))) = - 120"
    unfolding l0_def b_def by (simp add: model_defs)
  have v1: "cash (ledger_portfolio l1) = 1100 \<and>
      long_value (compute_stats (positions (position_tracker l1))) = 0 \<and>
      short_value (compute_stats (positions (position_tracker l1))) = - 120 \<and>
      gross_exposure (compute_stats (positions (position_tracker l1))) = 120 \<and>
      net_exposure (compute_stats (positions (position_tracker l1))) = - 120"
    unfolding l1_def b_def by (simp add: model_defs)
  have "\<exists>l'. calculate_period_stats l0 = Inr ((0, PInf, PInf), l')"
    using period_stats_leverage [OF s0 refl] v0 by auto
  moreover have "\<exists>l'. calculate_period_stats l1 = Inr ((980, Fin (6 / 49), Fin (- (6 / 49))), l')"
    using period_stats_leverage [OF s1 refl] v1 by auto
  ultimately show ?thesis
    using r0 r1 unfolding b_def by (simp add: and_then_def)
qed




subsection \<open>Compounded returns\<close>









section \<open>Where the code departs from the stated behaviour\<close>

subsection \<open>Payout of a transaction in a future\<close>

lemma execute_transaction_lookup:
  assumes "held_amount pt (txn_asset txn) + txn_amount txn \<noteq> 0"
  shows "\<exists>p. map_of (positions (execute_transaction pt txn)) (txn_asset txn) = Some p \<and>
             amount p = held_amount pt (txn_asset txn) + txn_amount txn"
  using assms
  by (auto simp: held_amount_def execute_transaction_def Let_def Position_update_amount
        Position_def AList.update_conv' split: option.splits)

text \<open>
  What \<^verbatim>\<open>process_transaction\<close> pays for a future that has a reference price \<open>p0\<close>: the
  price move times the multiplier times the amount held after the transaction, because
  the book has executed the transaction by the time the amount is read.
\<close>

lemma process_transaction_pays_on_amount_after:
  assumes "txn_asset txn = Future sid m"
    and "map_of (payout_last_sale_prices l) (Future sid m) = Some p0"
    and "held_amount (position_tracker l) (Future sid m) + txn_amount txn \<noteq> 0"
  shows "\<exists>l'. process_transaction l txn = Inr l' \<and>
           cash (ledger_portfolio l') =
             cash (ledger_portfolio l) +
             (txn_price txn - p0) * m *
               of_int (held_amount (position_tracker l) (Future sid m) + txn_amount txn)"
proof -
  obtain p where p: "map_of (positions (execute_transaction (position_tracker l) txn))
                       (Future sid m) = Some p"
    and a: "amount p = held_amount (position_tracker l) (Future sid m) + txn_amount txn"
    using execute_transaction_lookup [of "position_tracker l" txn] assms(1,3) by auto
  show ?thesis
    using assms(1,2) p a
    by (simp add: process_transaction_def Let_def getitem_def positiondict_getitem_def
          add_cash_flow_def add_cash_def
          set_dirty_portfolio_def journal_transaction_def calculate_payout_def)
qed

text \<open>
  Claim C1 asks that a transaction at price \<open>p1\<close> in a future held with amount \<open>a\<close> and
  reference price \<open>p0\<close> adds \<open>(p1 - p0) * multiplier * a\<close> to cash, with \<open>a\<close> the amount
  before the transaction, and that the reference price goes when the position closes.
  The code, run on the spec's scenario (multiplier 5, two contracts opened at 50, one more
  bought at 55, starting cash 1000): the opening leaves cash at 1000 and records the
  reference price 50; the second transaction brings cash to 1075, a payout of
  \<open>(55 - 50) * 5 * 3\<close> on the three contracts held after it, where the claim has
  \<open>(55 - 50) * 5 * 2 = 50\<close>. Selling one of the two contracts instead leaves one contract in
  the book and drops the reference price.
\<close>

theorem process_transaction_future_run:
  "map_sum id
     (\<lambda>l. (cash (ledger_portfolio l), payout_last_sale_prices l,
           amounts (position_tracker l)))
     (apply_mutations (Ledger 1000)
        [Process_transaction (Transaction (Future 1 5) 2 1 50)])
     = Inr (1000, [(Future 1 5, 50)], [(Future 1 5, 2)]) \<and>
   map_sum id
     (\<lambda>l. (cash (ledger_portfolio l), payout_last_sale_prices l,
           amounts (position_tracker l)))
     (apply_mutations (Ledger 1000)
        [Process_transaction (Transaction (Future 1 5) 2 1 50),
         Process_transaction (Transaction (Future 1 5) 1 2 55)])
     = Inr (1075, [(Future 1 5, 55)], [(Future 1 5, 3)]) \<and>
   map_sum id
     (\<lambda>l. (cash (ledger_portfolio l), payout_last_sale_prices l,
           amounts (position_tracker l)))
     (apply_mutations (Ledger 1000)
        [Process_transaction (Transaction (Future 1 5) 2 1 50),
         Process_transaction (Transaction (Future 1 5) (-1) 2 55)])
     = Inr (1025, [], [(Future 1 5, 1)])"
  by (simp add: model_defs)

subsection \<open>Paying dividends twice\<close>

text \<open>The part of the claim that holds: the second call for a date pays no cash.\<close>

lemma pay_dividends_second_cash: "fst (pay_dividends (snd (pay_dividends pt d)) d) = 0"
  by (simp add: pay_dividends_def Let_def AList.delete_conv' split: option.splits prod.splits)

text \<open>The stock obligations of the date stay where they are.\<close>

lemma pay_dividends_keeps_stock_list:
  "unpaid_stock_dividends (snd (pay_dividends pt d)) = unpaid_stock_dividends pt"
  by (simp add: pay_dividends_def Let_def split: option.splits prod.splits)

text \<open>
  Claim C2 asks that a second \<^verbatim>\<open>pay_dividends\<close> for the same date returns zero cash and
  leaves every amount as it is. The code, on a book that holds 10 shares of instrument 1
  and owes, for day 5, 7 in cash and 3 shares of instrument 2: the first call returns 7
  and credits the 3 shares; the second call returns 0 and credits 3 more shares, 6 in all.
\<close>

theorem pay_dividends_twice_run:
  "fst (pay_dividends
          (PositionTracker
             \<lparr>positions := [(Equity 1, (Position (Equity 1))\<lparr>amount := 10\<rparr>)],
              unpaid_dividends := [(5, [\<lparr>pay_asset = Equity 1, pay_amount = 7\<rparr>])],
              unpaid_stock_dividends :=
                [(5, [\<lparr>payment_asset = Equity 2, share_count = 3\<rparr>])]\<rparr>) 5) = 7 \<and>
   amounts (snd (pay_dividends
          (PositionTracker
             \<lparr>positions := [(Equity 1, (Position (Equity 1))\<lparr>amount := 10\<rparr>)],
              unpaid_dividends := [(5, [\<lparr>pay_asset = Equity 1, pay_amount = 7\<rparr>])],
              unpaid_stock_dividends :=
                [(5, [\<lparr>payment_asset = Equity 2, share_count = 3\<rparr>])]\<rparr>) 5))
     = [(Equity 1, 10), (Equity 2, 3)] \<and>
   fst (pay_dividends (snd (pay_dividends
          (PositionTracker
             \<lparr>positions := [(Equity 1, (Position (Equity 1))\<lparr>amount := 10\<rparr>)],
              unpaid_dividends := [(5, [\<lparr>pay_asset = Equity 1, pay_amount = 7\<rparr>])],
              unpaid_stock_dividends :=
                [(5, [\<lparr>payment_asset = Equity 2, share_count = 3\<rparr>])]\<rparr>) 5)) 5) = 0 \<and>
   amounts (snd (pay_dividends (snd (pay_dividends
          (PositionTracker
             \<lparr>positions := [(Equity 1, (Position (Equity 1))\<lparr>amount := 10\<rparr>)],
              unpaid_dividends := [(5, [\<lparr>pay_asset = Equity 1, pay_amount = 7\<rparr>])],
              unpaid_stock_dividends :=
                [(5, [\<lparr>payment_asset = Equity 2, share_count = 3\<rparr>])]\<rparr>) 5)) 5))
     = [(Equity 1, 10), (Equity 2, 6)]"
  by (simp add: model_defs)

subsection \<open>The outstanding payout of the portfolio\<close>

lemma get_payout_total_raises: "get_payout_total (x # xs) ps acc \<noteq> Inr v"
  by (cases x) (simp add: positiondict_amount_def split: sum.splits)

text \<open>With a reference price on record, a dirty portfolio cannot be read at all.\<close>

lemma portfolio_raises_with_reference_price:
  assumes "dirty_portfolio l" and "payout_last_sale_prices l \<noteq> []"
  shows "\<exists>e. portfolio l = Inl e"
proof -
  obtain x xs where "payout_last_sale_prices l = x # xs"
    using assms(2) by (cases "payout_last_sale_prices l") auto
  then show ?thesis
    using assms(1)
    by (auto simp: portfolio_def get_payout_total_raises
        split: prod.splits option.splits sum.splits)
qed

text \<open>
  Claim C3 asks that reading a dirty portfolio with a reference price on record computes
  the outstanding payout \<open>\<Sum> multiplier * held_amount * (last_sale_price - reference_price)\<close>
  and sets cash and portfolio value from it. The code, after two contracts of a future
  (multiplier 5) are opened at 50: the ledger is dirty and holds the reference price, and
  the read raises \<^verbatim>\<open>AttributeError\<close>, since \<^verbatim>\<open>_get_payout_total\<close> asks the book, not the
  position, for \<^verbatim>\<open>amount\<close>.
\<close>

theorem portfolio_read_with_reference_price_run:
  "map_sum id (\<lambda>l. (dirty_portfolio l, payout_last_sale_prices l))
     (apply_mutations (Ledger 1000)
        [Process_transaction (Transaction (Future 1 5) 2 1 50)])
     = Inr (True, [(Future 1 5, 50)]) \<and>
   and_then
     (apply_mutations (Ledger 1000)
        [Process_transaction (Transaction (Future 1 5) 2 1 50)])
     portfolio = Inl AttributeError"
  by (simp add: model_defs)

subsection \<open>Reading the portfolio after a price sync\<close>

text \<open>
  \<^verbatim>\<open>Ledger.sync_last_sale_prices\<close> leaves the dirty flag of the portfolio alone, so a clean
  portfolio is handed out as it was cached.
\<close>

lemma sync_last_sale_prices_dirty:
  "dirty_portfolio (sync_last_sale_prices l dt dp h) = dirty_portfolio l"
  by (simp add: sync_last_sale_prices_def)

lemma portfolio_after_sync_cached:
  "\<not> dirty_portfolio l \<Longrightarrow>
   map_sum id ledger_portfolio (portfolio (sync_last_sale_prices l dt dp h)) =
     Inr (ledger_portfolio l)"
  by (simp add: portfolio_def sync_last_sale_prices_def)

text \<open>
  Claim C4 asks that a portfolio read after \<^verbatim>\<open>sync_last_sale_prices\<close> is recomputed from
  the new prices. The code, on the spec's scenario (starting cash 100000, 10 shares bought
  at 10) with a read at price 10 before the sync to 12: the book then has the price 12,
  and the read still returns positions value 100 and portfolio value 100000 (the claim:
  120 and 100020), with the portfolio marked clean.
\<close>

theorem portfolio_read_after_sync_run:
  "map_sum id
     (\<lambda>l. (positions_value (ledger_portfolio l), cash (ledger_portfolio l),
           portfolio_value (ledger_portfolio l), dirty_portfolio l,
           map (\<lambda>(a, p). last_sale_price p) (positions (position_tracker l))))
     (and_then
        (and_then
           (apply_mutations (Ledger 100000)
              [Process_transaction (Transaction (Equity 1) 10 1 10),
               Sync_last_sale_prices 1 (quote 10) False])
           portfolio)
        (\<lambda>l. portfolio (sync_last_sale_prices l 2 (quote 12) False)))
     = Inr (100, 99900, 100000, False, [12])"
  by (simp add: model_defs)

subsection \<open>Long exposure\<close>

text \<open>The long exposure is that of the last long position; the short exposures add up.\<close>

lemma long_exposure_is_last:
  "position_exposure p > 0 \<Longrightarrow>
   long_exposure (compute_stats (ps @ [(a, p)])) = position_exposure p"
  by (simp add: compute_stats_def stats_step_def Let_def)

lemma foldl_short_exposure:
  "t_short_exposure (foldl stats_step t ps) =
     t_short_exposure t +
     (\<Sum>p\<leftarrow>ps. if position_exposure p < 0 then position_exposure p else 0)"
  by (induction ps arbitrary: t) (auto simp: stats_step_def Let_def)

lemma short_exposure_is_sum:
  "short_exposure (compute_stats ps) =
     (\<Sum>p\<leftarrow>map snd ps. if position_exposure p < 0 then position_exposure p else 0)"
  by (simp add: compute_stats_def Let_def foldl_short_exposure)

text \<open>
  Claim C5 asks that \<open>long_exposure\<close> is the sum of the positive exposures, and that gross
  and net exposure derive from that sum. The code, on a book with 10 shares of instrument
  1 and 3 shares of instrument 2, both priced at 10: two long positions of value 130 are
  counted, and the long, gross and net exposures are 30, the exposure of the second
  position (the claim: 130).
\<close>

theorem stats_two_longs_run:
  "map_sum id
     (\<lambda>l. map_option
             (\<lambda>s. (long_exposure s, longs_count s, long_value s, gross_exposure s,
                   net_exposure s))
             (fst (stats (position_tracker l))))
     (apply_mutations (Ledger 1000)
        [Process_transaction (Transaction (Equity 1) 10 1 10),
         Process_transaction (Transaction (Equity 2) 3 1 10),
         Sync_last_sale_prices 1 (quote 10) False])
     = Inr (Some (30, 2, 130, 30, 30))"
  by (simp add: model_defs)

subsection \<open>The order journals\<close>

text \<open>
  An order whose timestamp has a bucket already goes to the end of the journal by id; an
  order that opens a new bucket is stored under its id in place.
\<close>

lemma process_order_known_bucket:
  assumes "map_of (orders_by_modified l) (order_dt ord) = Some dt_orders"
  shows "\<exists>l'. process_order l ord = Inr l' \<and>
           orders_by_id l' =
             AList.delete (order_id ord) (orders_by_id l) @ [(order_id ord, ord)]"
  using assms
  by (simp add: process_order_def move_to_end_def AList.update_conv'
        AList.delete_update_same)

lemma process_order_new_bucket:
  assumes "map_of (orders_by_modified l) (order_dt ord) = None"
  shows "\<exists>l'. process_order l ord = Inr l' \<and>
           orders_by_id l' = AList.update (order_id ord) ord (orders_by_id l)"
  using assms by (simp add: process_order_def)

text \<open>
  Claim C6 asks that after two \<^verbatim>\<open>process_order\<close> calls for one id its entry is the last
  one of the journal by id and of its timestamp bucket. The code, on order 1 at time 10,
  order 2 at time 10, then order 1 again at time 20: the journal by id holds the new
  record of order 1 once, but in first place, before order 2; the bucket of time 20 holds
  it alone, and the bucket of time 10 keeps the old record.
\<close>

theorem process_order_new_timestamp_run:
  "map_sum id (\<lambda>l. (orders_by_id l, orders_by_modified l))
     (apply_mutations (Ledger 1000)
        [Process_order (Order 1 10 100 0), Process_order (Order 2 10 50 0),
         Process_order (Order 1 20 100 40)])
     = Inr ([(1, Order 1 20 100 40), (2, Order 2 10 50 0)],
            [(10, [(1, Order 1 10 100 0), (2, Order 2 10 50 0)]),
             (20, [(1, Order 1 20 100 40)])])"
  by (simp add: model_defs)

end
